theory Spec2Isabelle
  imports Complex_Main "HOL-Library.Word" "HOL-Library.AList"
begin

section \<open>Tabular data as the Glue transform job sees it\<close>

text \<open>
  The job (\<^verbatim>\<open>scripts/glue_transform/transform.py\<close>) works on Spark DataFrames read from
  newline-delimited JSON. A cell is SQL NULL, a string or a number. A number is the exact
  rational value of a finite double or of a long of the engine, so comparisons are
  exact; the engine's arithmetic on numbers is not computed here but taken as a
  parameter (see \<open>arithmetic\<close>). The string of a cell is the list of its characters,
  with code points below 256.

  A row carries its cells by column name; a field that a JSON record lacks reads as NULL.
  The schema is the list of column names of the frame.
\<close>

datatype val = Null | Str string | Num rat

type_synonym row = "(string \<times> val) list"

record dataframe =
  columns :: "string list"
  rows :: "row list"

definition cell :: "row \<Rightarrow> string \<Rightarrow> val" where
  "cell r c = (case map_of r c of None \<Rightarrow> Null | Some v \<Rightarrow> v)"

text \<open>
  Exceptions are values. \<open>AnalysisException c\<close> is what the engine raises when an
  expression names a column \<open>c\<close> that the frame's schema does not have;
  \<open>ExternalError\<close> is any failure of a collaborator (storage, catalog);
  \<open>UnicodeEncodeError\<close> is what \<^verbatim>\<open>str.encode\<close> raises.
\<close>

datatype exn = AnalysisException string | ExternalError string | UnicodeEncodeError

definition exn_bind :: "exn + 'a \<Rightarrow> ('a \<Rightarrow> exn + 'b) \<Rightarrow> exn + 'b" where
  "exn_bind m f = (case m of Inl e \<Rightarrow> Inl e | Inr x \<Rightarrow> f x)"

subsection \<open>Column expressions\<close>

text \<open>
  A column expression (\<^verbatim>\<open>pyspark.sql.Column\<close>) is kept as the columns it names and its
  value on a row. Conditions are three-valued: \<open>None\<close> is SQL's unknown. A number is
  expected where the source compares or computes, a string where it takes a substring
  or a pseudonym; the engine would cast a cell of the other kind or fail on it, which is
  not modelled: such a cell reads as NULL there, and the theorems below speak only of
  cells of the expected kind. Column names are compared exactly.
\<close>

record 'a expr =
  refs :: "string list"
  ev :: "row \<Rightarrow> 'a"

type_synonym column = "val expr"
type_synonym condition = "bool option expr"

definition col :: "string \<Rightarrow> column" where
  "col c = \<lparr>refs = [c], ev = (\<lambda>r. cell r c)\<rparr>"

definition isNull :: "column \<Rightarrow> condition" where
  "isNull e = \<lparr>refs = refs e, ev = (\<lambda>r. Some (ev e r = Null))\<rparr>"

definition isNotNull :: "column \<Rightarrow> condition" where
  "isNotNull e = \<lparr>refs = refs e, ev = (\<lambda>r. Some (ev e r \<noteq> Null))\<rparr>"

fun as_num :: "val \<Rightarrow> rat option" where
  "as_num (Num x) = Some x"
| "as_num _ = None"

fun as_str :: "val \<Rightarrow> string option" where
  "as_str (Str s) = Some s"
| "as_str _ = None"

definition col_lt :: "column \<Rightarrow> rat \<Rightarrow> condition" where
  "col_lt e x = \<lparr>refs = refs e, ev = (\<lambda>r. map_option (\<lambda>v. v < x) (as_num (ev e r)))\<rparr>"

definition col_gt :: "column \<Rightarrow> rat \<Rightarrow> condition" where
  "col_gt e x = \<lparr>refs = refs e, ev = (\<lambda>r. map_option (\<lambda>v. v > x) (as_num (ev e r)))\<rparr>"

definition col_ge :: "column \<Rightarrow> rat \<Rightarrow> condition" where
  "col_ge e x = \<lparr>refs = refs e, ev = (\<lambda>r. map_option (\<lambda>v. v \<ge> x) (as_num (ev e r)))\<rparr>"

fun or3 :: "bool option \<Rightarrow> bool option \<Rightarrow> bool option" where
  "or3 (Some True) _ = Some True"
| "or3 _ (Some True) = Some True"
| "or3 (Some False) (Some False) = Some False"
| "or3 _ _ = None"

fun and3 :: "bool option \<Rightarrow> bool option \<Rightarrow> bool option" where
  "and3 (Some False) _ = Some False"
| "and3 _ (Some False) = Some False"
| "and3 (Some True) (Some True) = Some True"
| "and3 _ _ = None"

definition col_or :: "condition \<Rightarrow> condition \<Rightarrow> condition" where
  "col_or a b = \<lparr>refs = refs a @ refs b, ev = (\<lambda>r. or3 (ev a r) (ev b r))\<rparr>"

definition col_and :: "condition \<Rightarrow> condition \<Rightarrow> condition" where
  "col_and a b = \<lparr>refs = refs a @ refs b, ev = (\<lambda>r. and3 (ev a r) (ev b r))\<rparr>"

text \<open>
  The engine's arithmetic is a parameter: \<^verbatim>\<open>*\<close>, \<^verbatim>\<open>/\<close> and \<^verbatim>\<open>+\<close> of a column and a
  literal, and \<^verbatim>\<open>F.round\<close>, as the engine evaluates them on the column of a run
  (binary64 operations on a double column, 64-bit operations on a long column, decimal
  rounding of the printed double). An operation gives \<open>None\<close> where the engine's
  result is not a finite number: NULL for a division by zero, an infinity or a NaN
  otherwise. The cells here hold no infinity and no NaN, so the cell reads as NULL in
  both cases, and the theorems below speak only of finite results.
\<close>

record arithmetic =
  op_mul :: "rat \<Rightarrow> rat \<Rightarrow> rat option"
  op_div :: "rat \<Rightarrow> rat \<Rightarrow> rat option"
  op_add :: "rat \<Rightarrow> rat \<Rightarrow> rat option"
  op_round :: "rat \<Rightarrow> nat \<Rightarrow> rat option"

definition num_lift :: "(rat \<Rightarrow> rat option) \<Rightarrow> column \<Rightarrow> column" where
  "num_lift f e =
     \<lparr>refs = refs e,
      ev = (\<lambda>r. case as_num (ev e r) of
                   None \<Rightarrow> Null
                 | Some x \<Rightarrow> (case f x of None \<Rightarrow> Null | Some y \<Rightarrow> Num y))\<rparr>"

definition col_mul :: "arithmetic \<Rightarrow> column \<Rightarrow> rat \<Rightarrow> column" where
  "col_mul ar e k = num_lift (\<lambda>x. op_mul ar x k) e"

definition col_div :: "arithmetic \<Rightarrow> column \<Rightarrow> rat \<Rightarrow> column" where
  "col_div ar e k = num_lift (\<lambda>x. op_div ar x k) e"

definition col_add :: "arithmetic \<Rightarrow> column \<Rightarrow> rat \<Rightarrow> column" where
  "col_add ar e k = num_lift (\<lambda>x. op_add ar x k) e"

definition col_round :: "arithmetic \<Rightarrow> column \<Rightarrow> nat \<Rightarrow> column" where
  "col_round ar e d = num_lift (\<lambda>x. op_round ar x d) e"

text \<open>\<^verbatim>\<open>F.substring(c, pos, len)\<close> with a 1-based \<open>pos\<close>.\<close>

definition substring :: "column \<Rightarrow> nat \<Rightarrow> nat \<Rightarrow> column" where
  "substring e pos len =
     \<lparr>refs = refs e,
      ev = (\<lambda>r. case as_str (ev e r) of None \<Rightarrow> Null
                 | Some s \<Rightarrow> Str (take len (drop (pos - 1) s)))\<rparr>"

text \<open>
  \<^verbatim>\<open>F.when(c1, v1).when(c2, v2).otherwise(v)\<close>: the first branch whose condition is
  true gives the value; an unknown condition does not match.
\<close>

fun when_value :: "(condition \<times> val) list \<Rightarrow> val \<Rightarrow> row \<Rightarrow> val" where
  "when_value [] other r = other"
| "when_value ((c, v) # bs) other r = (if ev c r = Some True then v else when_value bs other r)"

definition when_otherwise :: "(condition \<times> val) list \<Rightarrow> val \<Rightarrow> column" where
  "when_otherwise bs other =
     \<lparr>refs = concat (map (\<lambda>b. refs (fst b)) bs), ev = when_value bs other\<rparr>"

definition udf :: "(val \<Rightarrow> val) \<Rightarrow> column \<Rightarrow> column" where
  "udf f e = \<lparr>refs = refs e, ev = (\<lambda>r. f (ev e r))\<rparr>"

subsection \<open>DataFrame operations\<close>

text \<open>
  The engine analyses an expression against the schema when the frame operation is
  called: a column that is not in the schema raises, whatever the rows are. Names are
  compared exactly here. The engine compares them without regard to case, reads a dot
  or a backquote in the name of \<^verbatim>\<open>F.col\<close> as syntax, and refuses a name that two
  columns carry; on plain names (\<open>plain_name\<close>, \<open>plain_schema\<close> below) the two agree.
\<close>

definition resolve :: "dataframe \<Rightarrow> 'a expr \<Rightarrow> exn + unit" where
  "resolve d e =
     (case filter (\<lambda>c. c \<notin> set (columns d)) (refs e) of
        [] \<Rightarrow> Inr ()
      | c # _ \<Rightarrow> Inl (AnalysisException c))"

definition df_filter :: "dataframe \<Rightarrow> condition \<Rightarrow> exn + dataframe" where
  "df_filter d c =
     exn_bind (resolve d c)
       (\<lambda>_. Inr (d\<lparr>rows := filter (\<lambda>r. ev c r = Some True) (rows d)\<rparr>))"

definition df_count :: "dataframe \<Rightarrow> int" where
  "df_count d = int (length (rows d))"

definition isEmpty :: "dataframe \<Rightarrow> bool" where
  "isEmpty d = (rows d = [])"

definition withColumn :: "dataframe \<Rightarrow> string \<Rightarrow> column \<Rightarrow> exn + dataframe" where
  "withColumn d name e =
     exn_bind (resolve d e)
       (\<lambda>_. Inr \<lparr>columns = (if name \<in> set (columns d) then columns d else columns d @ [name]),
                 rows = map (\<lambda>r. AList.update name (ev e r) r) (rows d)\<rparr>)"

definition drop_column :: "dataframe \<Rightarrow> string \<Rightarrow> dataframe" where
  "drop_column d name =
     \<lparr>columns = filter (\<lambda>c. c \<noteq> name) (columns d),
      rows = map (AList.delete name) (rows d)\<rparr>"

section \<open>Expectation engine and validation report\<close>

datatype detail = DStr string | DInt int | DFloat rat

record expectation_result =
  expectation_type :: string
  success :: bool
  details :: "(string \<times> detail) list"

text \<open>\<^verbatim>\<open>ExpectationResult.to_dict\<close> copies the three attributes into a dict.\<close>

definition to_dict :: "expectation_result \<Rightarrow> expectation_result" where
  "to_dict r =
     \<lparr>expectation_type = expectation_type r, success = success r, details = details r\<rparr>"

record validator =
  df :: dataframe
  dataset_name :: string
  results :: "expectation_result list"

definition DataValidator :: "dataframe \<Rightarrow> string \<Rightarrow> validator" where
  "DataValidator d name = \<lparr>df = d, dataset_name = name, results = []\<rparr>"

definition expect_column_values_to_not_be_null :: "validator \<Rightarrow> string \<Rightarrow> exn + validator" where
  "expect_column_values_to_not_be_null v column =
     (let total = df_count (df v) in
      exn_bind (df_filter (df v) (isNull (col column)))
        (\<lambda>flt.
          let nulls = df_count flt;
              ok = (nulls = 0)
          in Inr (v\<lparr>results := results v @
                [\<lparr>expectation_type = ''expect_column_values_to_not_be_null'',
                  success = ok,
                  details = [(''column'', DStr column), (''null_count'', DInt nulls),
                             (''total_count'', DInt total)]\<rparr>]\<rparr>)))"

definition expect_column_values_to_be_between ::
  "validator \<Rightarrow> string \<Rightarrow> rat \<Rightarrow> rat \<Rightarrow> exn + validator" where
  "expect_column_values_to_be_between v column min_value max_value =
     (let total = df_count (df v) in
      exn_bind (df_filter (df v)
                  (col_or (col_lt (col column) min_value) (col_gt (col column) max_value)))
        (\<lambda>flt.
          let out_of_range = df_count flt;
              ok = (out_of_range = 0)
          in Inr (v\<lparr>results := results v @
                [\<lparr>expectation_type = ''expect_column_values_to_be_between'',
                  success = ok,
                  details = [(''column'', DStr column), (''min'', DFloat min_value),
                             (''max'', DFloat max_value),
                             (''out_of_range_count'', DInt out_of_range),
                             (''total_count'', DInt total)]\<rparr>]\<rparr>)))"

definition expect_table_row_count_to_be_greater_than :: "validator \<Rightarrow> int \<Rightarrow> exn + validator" where
  "expect_table_row_count_to_be_greater_than v value =
     (let count = df_count (df v);
          ok = (count > value)
      in Inr (v\<lparr>results := results v @
            [\<lparr>expectation_type = ''expect_table_row_count_to_be_greater_than'',
              success = ok,
              details = [(''row_count'', DInt count), (''min_expected'', DInt value)]\<rparr>]\<rparr>))"

text \<open>
  The dict that \<^verbatim>\<open>validate\<close> returns has six fixed keys; \<open>overall_success\<close> is its key
  \<^verbatim>\<open>"success"\<close> and \<open>result_dicts\<close> its key \<^verbatim>\<open>"results"\<close>.
\<close>

record validation_report =
  dataset :: string
  expectations_evaluated :: int
  expectations_passed :: int
  expectations_failed :: int
  overall_success :: bool
  result_dicts :: "expectation_result list"

definition validate :: "validator \<Rightarrow> validation_report" where
  "validate v =
     (let passed = (\<Sum>r \<leftarrow> filter success (results v). (1::int));
          failed = int (length (results v)) - passed
      in \<lparr>dataset = dataset_name v,
          expectations_evaluated = int (length (results v)),
          expectations_passed = passed,
          expectations_failed = failed,
          overall_success = (failed = 0),
          result_dicts = map to_dict (results v)\<rparr>)"

section \<open>Pseudonymization\<close>

text \<open>
  \<^verbatim>\<open>hashlib.sha256\<close> is a parameter \<open>sha256\<close>, from the bytes of the message to the
  bytes of the digest. \<^verbatim>\<open>str.encode("utf-8")\<close> and \<^verbatim>\<open>hexdigest\<close> are written out.
  A Python string is the list of its code points, numbers below \<open>0x110000\<close>;
  the surrogate code points, from \<open>0xD800\<close> to \<open>0xDFFF\<close>, have no UTF-8 encoding and
  \<^verbatim>\<open>encode\<close> raises on the first one.
\<close>

type_synonym byte = "8 word"

definition utf8_code_point :: "nat \<Rightarrow> exn + byte list" where
  "utf8_code_point c =
     (if c < 0x80 then Inr [of_nat c]
      else if c < 0x800 then Inr [of_nat (0xC0 + c div 0x40), of_nat (0x80 + c mod 0x40)]
      else if 0xD800 \<le> c \<and> c < 0xE000 then Inl UnicodeEncodeError
      else if c < 0x10000
      then Inr [of_nat (0xE0 + c div 0x1000), of_nat (0x80 + c div 0x40 mod 0x40),
                of_nat (0x80 + c mod 0x40)]
      else if c < 0x110000
      then Inr [of_nat (0xF0 + c div 0x40000), of_nat (0x80 + c div 0x1000 mod 0x40),
                of_nat (0x80 + c div 0x40 mod 0x40), of_nat (0x80 + c mod 0x40)]
      else Inl UnicodeEncodeError)"

fun encode_utf8 :: "nat list \<Rightarrow> exn + byte list" where
  "encode_utf8 [] = Inr []"
| "encode_utf8 (c # cs) =
     exn_bind (utf8_code_point c) (\<lambda>bs.
     exn_bind (encode_utf8 cs) (\<lambda>rest. Inr (bs @ rest)))"

definition hex_digit :: "nat \<Rightarrow> char" where
  "hex_digit n = ''0123456789abcdef'' ! (n mod 16)"

definition hexdigest :: "byte list \<Rightarrow> string" where
  "hexdigest bs = concat (map (\<lambda>b. [hex_digit (unat b div 16), hex_digit (unat b mod 16)]) bs)"

definition pseudonymize_column ::
  "(byte list \<Rightarrow> byte list) \<Rightarrow> nat list option \<Rightarrow> exn + string option" where
  "pseudonymize_column sha256 value =
     (case value of
        None \<Rightarrow> Inr None
      | Some s \<Rightarrow> exn_bind (encode_utf8 s) (\<lambda>bs. Inr (Some (hexdigest (sha256 bs)))))"

text \<open>
  \<^verbatim>\<open>pseudonymize_udf = F.udf(pseudonymize_column, StringType())\<close>: NULL reaches the
  function as \<^verbatim>\<open>None\<close>, and \<^verbatim>\<open>None\<close> comes back as NULL. The string of a cell
  reaches it as its code points, all below 256, which always encode: the function does
  not raise on a cell, and the last case below is never taken.
\<close>

definition pseudonymize_udf :: "(byte list \<Rightarrow> byte list) \<Rightarrow> val \<Rightarrow> val" where
  "pseudonymize_udf sha256 v =
     (case pseudonymize_column sha256 (map_option (map of_char) (as_str v)) of
        Inr (Some h) \<Rightarrow> Str h
      | _ \<Rightarrow> Null)"

section \<open>The two transforms\<close>

subsection \<open>Effects\<close>

text \<open>
  What a run does to the outside is kept in a \<open>world\<close>: the lines logged, the frames
  written (by path; the write mode is overwrite), the SQL statements executed, and
  whether the job was committed. What the outside does to a run is a \<open>runtime\<close>: the
  hash function, the engine's arithmetic, what reading a path gives (a frame, or the
  exception that the read or the emptiness check raises), and whether a write or a
  statement fails.
\<close>

datatype level = INFO | WARNING | ERROR

datatype log_arg = ArgStr string | ArgReport validation_report | ArgExn exn

type_synonym log_line = "string \<times> level \<times> string \<times> log_arg list"

record world =
  log_lines :: "log_line list"
  written :: "(string \<times> dataframe) list"
  statements :: "string list"
  committed :: bool

record runtime =
  sha256 :: "byte list \<Rightarrow> byte list"
  arith :: arithmetic
  read_json :: "string \<Rightarrow> exn + dataframe"
  write_error :: "string \<Rightarrow> exn option"
  sql_error :: "string \<Rightarrow> exn option"

type_synonym outcome = "exn option \<times> world"

definition and_then :: "outcome \<Rightarrow> (world \<Rightarrow> outcome) \<Rightarrow> outcome" where
  "and_then m f = (case m of (Some e, w) \<Rightarrow> (Some e, w) | (None, w) \<Rightarrow> f w)"

definition logger :: "string \<Rightarrow> level \<Rightarrow> string \<Rightarrow> log_arg list \<Rightarrow> world \<Rightarrow> world" where
  "logger name lvl msg args w = w\<lparr>log_lines := log_lines w @ [(name, lvl, msg, args)]\<rparr>"

text \<open>
  \<^verbatim>\<open>df.write.mode("overwrite").partitionBy(p).option(...).parquet(path)\<close>: the
  partition column must be in the schema.
\<close>

definition write_parquet :: "runtime \<Rightarrow> dataframe \<Rightarrow> string \<Rightarrow> string \<Rightarrow> world \<Rightarrow> outcome" where
  "write_parquet rt d part path w =
     (if part \<notin> set (columns d) then (Some (AnalysisException part), w)
      else case write_error rt path of
             Some e \<Rightarrow> (Some e, w)
           | None \<Rightarrow> (None, w\<lparr>written := AList.update path d (written w)\<rparr>))"

definition spark_sql :: "runtime \<Rightarrow> string \<Rightarrow> world \<Rightarrow> outcome" where
  "spark_sql rt stmt w =
     (case sql_error rt stmt of
        Some e \<Rightarrow> (Some e, w)
      | None \<Rightarrow> (None, w\<lparr>statements := statements w @ [stmt]\<rparr>))"

subsection \<open>Weather\<close>

definition weather_expectations :: "validator \<Rightarrow> exn + validator" where
  "weather_expectations v =
     exn_bind (expect_column_values_to_not_be_null v ''city'') (\<lambda>v.
     exn_bind (expect_column_values_to_not_be_null v ''timestamp'') (\<lambda>v.
     exn_bind (expect_column_values_to_not_be_null v ''temperature_c'') (\<lambda>v.
     exn_bind (expect_column_values_to_be_between v ''temperature_c'' (- 90) 60) (\<lambda>v.
     exn_bind (expect_column_values_to_be_between v ''humidity_pct'' 0 100) (\<lambda>v.
     expect_table_row_count_to_be_greater_than v 0)))))"

text \<open>The transform stage of \<^verbatim>\<open>transform_weather\<close>: the two \<^verbatim>\<open>withColumn\<close> calls.\<close>

definition weather_curated_df :: "arithmetic \<Rightarrow> dataframe \<Rightarrow> exn + dataframe" where
  "weather_curated_df ar raw_df =
     exn_bind (withColumn raw_df ''temperature_f''
                 (col_round ar (col_add ar (col_div ar (col_mul ar (col ''temperature_c'') 9) 5) 32) 2))
       (\<lambda>d. withColumn d ''date'' (substring (col ''timestamp'') 1 10))"

text \<open>
  \<^verbatim>\<open>transform_weather\<close> from the line that binds \<^verbatim>\<open>validation_result\<close> on, as a
  function of that variable and of \<^verbatim>\<open>raw_df\<close>.
\<close>

definition weather_after_validation ::
  "runtime \<Rightarrow> string \<Rightarrow> string \<Rightarrow> dataframe \<Rightarrow> validation_report \<Rightarrow> world \<Rightarrow> outcome" where
  "weather_after_validation rt curated_path database_name raw_df validation_result w =
     (let w = logger ''transform_weather'' INFO ''Weather validation: %s''
                [ArgReport validation_result] w;
          w = (if \<not> overall_success validation_result
               then logger ''transform_weather'' ERROR
                      ''Weather data validation FAILED. Check validation details.'' [] w
               else w)
      in case weather_curated_df (arith rt) raw_df of
           Inl e \<Rightarrow> (Some e, w)
         | Inr curated_df \<Rightarrow>
             and_then (write_parquet rt curated_df ''date'' curated_path w) (\<lambda>w.
             and_then (spark_sql rt (''MSCK REPAIR TABLE `'' @ database_name @ ''`.curated_weather'') w) (\<lambda>w.
             (None, logger ''transform_weather'' INFO ''Weather transform complete. Wrote to %s''
                      [ArgStr curated_path] w))))"

definition transform_weather :: "runtime \<Rightarrow> string \<Rightarrow> string \<Rightarrow> world \<Rightarrow> outcome" where
  "transform_weather rt datalake_bucket database_name w =
     (let w = logger ''transform_weather'' INFO ''Starting weather transform'' [] w;
          raw_path = ''s3://'' @ datalake_bucket @ ''/raw/weather/'';
          curated_path = ''s3://'' @ datalake_bucket @ ''/curated/weather/''
      in case read_json rt raw_path of
           Inl e \<Rightarrow>
             (None, logger ''transform_weather'' ERROR ''Failed to read raw weather data: %s''
                      [ArgExn e] w)
         | Inr raw_df \<Rightarrow>
             if isEmpty raw_df
             then (None, logger ''transform_weather'' WARNING ''No raw weather data found at %s''
                           [ArgStr raw_path] w)
             else case weather_expectations (DataValidator raw_df ''raw_weather'') of
                    Inl e \<Rightarrow> (Some e, w)
                  | Inr validator \<Rightarrow>
                      weather_after_validation rt curated_path database_name raw_df
                        (validate validator) w)"

subsection \<open>IoT sensors\<close>

definition iot_expectations :: "validator \<Rightarrow> exn + validator" where
  "iot_expectations v =
     exn_bind (expect_column_values_to_not_be_null v ''sensor_id'') (\<lambda>v.
     exn_bind (expect_column_values_to_not_be_null v ''city'') (\<lambda>v.
     exn_bind (expect_column_values_to_not_be_null v ''timestamp'') (\<lambda>v.
     exn_bind (expect_column_values_to_not_be_null v ''temperature_c'') (\<lambda>v.
     exn_bind (expect_column_values_to_be_between v ''temperature_c'' (- 50) 60) (\<lambda>v.
     exn_bind (expect_column_values_to_be_between v ''humidity_pct'' 0 100) (\<lambda>v.
     exn_bind (expect_column_values_to_be_between v ''aqi'' 0 500) (\<lambda>v.
     exn_bind (expect_column_values_to_be_between v ''battery_level'' 0 100) (\<lambda>v.
     expect_table_row_count_to_be_greater_than v 0))))))))"

text \<open>The quality classification: the \<^verbatim>\<open>F.when\<close> cascade of \<^verbatim>\<open>transform_iot_sensors\<close>.\<close>

definition quality_score :: column where
  "quality_score =
     when_otherwise
       [(col_and (col_and (col_and (col_ge (col ''battery_level'') 50)
                                   (isNotNull (col ''temperature_c'')))
                          (isNotNull (col ''humidity_pct'')))
                 (isNotNull (col ''aqi'')),
         Str ''PASS''),
        (col_ge (col ''battery_level'') 20, Str ''WARN'')]
       (Str ''FAIL'')"

text \<open>
  The transform stage of \<^verbatim>\<open>transform_iot_sensors\<close>: pseudonymize and drop, quality
  score, date partition.
\<close>

definition iot_transformed_df :: "(byte list \<Rightarrow> byte list) \<Rightarrow> dataframe \<Rightarrow> exn + dataframe" where
  "iot_transformed_df sha raw_df =
     exn_bind (withColumn raw_df ''sensor_id_hash'' (udf (pseudonymize_udf sha) (col ''sensor_id'')))
       (\<lambda>d. exn_bind (withColumn (drop_column d ''sensor_id'') ''quality_score'' quality_score)
       (\<lambda>d. withColumn d ''date'' (substring (col ''timestamp'') 1 10)))"

definition iot_after_validation ::
  "runtime \<Rightarrow> string \<Rightarrow> string \<Rightarrow> dataframe \<Rightarrow> validation_report \<Rightarrow> world \<Rightarrow> outcome" where
  "iot_after_validation rt curated_path database_name raw_df validation_result w =
     (let w = logger ''transform_iot_sensors'' INFO ''IoT sensor validation: %s''
                [ArgReport validation_result] w;
          w = (if \<not> overall_success validation_result
               then logger ''transform_iot_sensors'' ERROR
                      ''IoT sensor data validation FAILED. Check validation details.'' [] w
               else w)
      in case iot_transformed_df (sha256 rt) raw_df of
           Inl e \<Rightarrow> (Some e, w)
         | Inr transformed_df \<Rightarrow>
             and_then (write_parquet rt transformed_df ''date'' curated_path w) (\<lambda>w.
             and_then (spark_sql rt (''MSCK REPAIR TABLE `'' @ database_name @ ''`.curated_sensor_readings'') w) (\<lambda>w.
             (None, logger ''transform_iot_sensors'' INFO ''IoT sensor transform complete. Wrote to %s''
                      [ArgStr curated_path] w))))"

definition transform_iot_sensors :: "runtime \<Rightarrow> string \<Rightarrow> string \<Rightarrow> world \<Rightarrow> outcome" where
  "transform_iot_sensors rt datalake_bucket database_name w =
     (let w = logger ''transform_iot_sensors'' INFO ''Starting IoT sensor transform'' [] w;
          raw_path = ''s3://'' @ datalake_bucket @ ''/raw/iot-sensors/'';
          curated_path = ''s3://'' @ datalake_bucket @ ''/curated/sensor-readings/''
      in case read_json rt raw_path of
           Inl e \<Rightarrow>
             (None, logger ''transform_iot_sensors'' ERROR ''Failed to read raw IoT sensor data: %s''
                      [ArgExn e] w)
         | Inr raw_df \<Rightarrow>
             if isEmpty raw_df
             then (None, logger ''transform_iot_sensors'' WARNING ''No raw IoT sensor data found at %s''
                           [ArgStr raw_path] w)
             else case iot_expectations (DataValidator raw_df ''raw_iot_sensors'') of
                    Inl e \<Rightarrow> (Some e, w)
                  | Inr validator \<Rightarrow>
                      iot_after_validation rt curated_path database_name raw_df
                        (validate validator) w)"

subsection \<open>Entry point\<close>

record job_args =
  JOB_NAME :: string
  DATALAKE_BUCKET :: string
  ENVIRONMENT :: string
  DATABASE_NAME :: string
  KMS_KEY_ARN :: string

text \<open>The two calls under \<^verbatim>\<open># Run both transforms\<close>.\<close>

definition run_both_transforms :: "runtime \<Rightarrow> string \<Rightarrow> string \<Rightarrow> world \<Rightarrow> outcome" where
  "run_both_transforms rt datalake_bucket database_name w =
     and_then (transform_weather rt datalake_bucket database_name w)
       (transform_iot_sensors rt datalake_bucket database_name)"

definition main :: "runtime \<Rightarrow> job_args \<Rightarrow> world \<Rightarrow> outcome" where
  "main rt args w =
     (let datalake_bucket = DATALAKE_BUCKET args;
          database_name = DATABASE_NAME args;
          w = logger ''glue_transform'' INFO ''Starting Glue transform job. Bucket=%s, DB=%s, Env=%s''
                [ArgStr datalake_bucket, ArgStr database_name, ArgStr (ENVIRONMENT args)] w
      in and_then (spark_sql rt (''USE `'' @ database_name @ ''`'') w) (\<lambda>w.
         and_then (run_both_transforms rt datalake_bucket database_name w) (\<lambda>w.
         (None, (logger ''glue_transform'' INFO ''Glue transform job complete'' [] w)
                  \<lparr>committed := True\<rparr>))))"

section \<open>Vocabulary of the properties\<close>

text \<open>
  A record is out of range for a column when its cell is a number strictly below the
  minimum or strictly above the maximum; a NULL cell is not.
\<close>

definition out_of_range :: "string \<Rightarrow> rat \<Rightarrow> rat \<Rightarrow> row \<Rightarrow> bool" where
  "out_of_range c lo hi r = (case cell r c of Num x \<Rightarrow> x < lo \<or> hi < x | _ \<Rightarrow> False)"




text \<open>
  A plain name is a lowercase letter followed by lowercase letters, digits and
  underscores; a plain schema has plain names, no two alike.
\<close>

definition plain_name :: "string \<Rightarrow> bool" where
  "plain_name s =
     (case s of
        [] \<Rightarrow> False
      | c # cs \<Rightarrow> c \<in> set ''abcdefghijklmnopqrstuvwxyz''
                 \<and> list_all (\<lambda>x. x \<in> set ''abcdefghijklmnopqrstuvwxyz0123456789_'') cs)"

definition plain_schema :: "dataframe \<Rightarrow> bool" where
  "plain_schema d = (distinct (columns d) \<and> list_all plain_name (columns d))"

text \<open>A code point that UTF-8 encodes: below \<open>0x110000\<close> and not a surrogate.\<close>

definition encodable :: "nat \<Rightarrow> bool" where
  "encodable c = (c < 0xD800 \<or> (0xE000 \<le> c \<and> c < 0x110000))"

text \<open>What a run leaves behind, the log apart: the exception, the writes, the statements.\<close>

definition effects :: "outcome \<Rightarrow> exn option \<times> (string \<times> dataframe) list \<times> string list" where
  "effects out = (fst out, written (snd out), statements (snd out))"

text \<open>
  Fixtures for the examples: an arithmetic stand-in that computes in exact rationals
  and rounds half away from zero; a runtime with that arithmetic whose storage holds
  the given files, where reading any other path fails, every write and every
  statement succeeds, and the digest stand-in is the message itself; and the world
  before a run.
\<close>

definition exact_arithmetic :: arithmetic where
  "exact_arithmetic =
     \<lparr>op_mul = (\<lambda>x y. Some (x * y)),
      op_div = (\<lambda>x y. if y = 0 then None else Some (x / y)),
      op_add = (\<lambda>x y. Some (x + y)),
      op_round = (\<lambda>x d. Some (sgn x * of_int \<lfloor>\<bar>x\<bar> * 10 ^ d + 1 / 2\<rfloor> / 10 ^ d))\<rparr>"

definition runtime_with :: "(string \<times> dataframe) list \<Rightarrow> runtime" where
  "runtime_with files =
     \<lparr>sha256 = (\<lambda>bs. bs),
      arith = exact_arithmetic,
      read_json = (\<lambda>p. case map_of files p of None \<Rightarrow> Inl (ExternalError p) | Some d \<Rightarrow> Inr d),
      write_error = (\<lambda>p. None),
      sql_error = (\<lambda>s. None)\<rparr>"

definition fresh_world :: world where
  "fresh_world = \<lparr>log_lines = [], written = [], statements = [], committed = False\<rparr>"

section \<open>Validation report\<close>

lemma sum_list_ones: "(\<Sum>r \<leftarrow> xs. (1::int)) = int (length xs)"
  by (induction xs) simp_all

text \<open>
  C2. Whatever results a builder has accumulated, the report has
  passed + failed = evaluated, and its overall success is exactly failed = 0; the
  evaluated count is the number of results and the passed count the number of
  successful ones.
\<close>

theorem validate_counts:
  "expectations_passed (validate v) + expectations_failed (validate v)
     = expectations_evaluated (validate v)
   \<and> overall_success (validate v) = (expectations_failed (validate v) = 0)
   \<and> expectations_evaluated (validate v) = int (length (results v))
   \<and> expectations_passed (validate v) = int (length (filter success (results v)))"
  by (simp add: validate_def Let_def sum_list_ones)

text \<open>
  C10. A builder to which no rule was added validates to a report with zero evaluated,
  zero passed, zero failed expectations and overall success.
\<close>

theorem validate_no_rules:
  "expectations_evaluated (validate (DataValidator d name)) = 0
   \<and> expectations_passed (validate (DataValidator d name)) = 0
   \<and> expectations_failed (validate (DataValidator d name)) = 0
   \<and> overall_success (validate (DataValidator d name))"
  by (simp add: validate_def DataValidator_def Let_def)

section \<open>Expectation engine\<close>

lemma and3_True: "and3 a b = Some True \<longleftrightarrow> a = Some True \<and> b = Some True"
  by (induction a b rule: and3.induct) simp_all

lemma or3_True: "or3 a b = Some True \<longleftrightarrow> a = Some True \<or> b = Some True"
  by (induction a b rule: or3.induct) simp_all

lemma resolve_iff: "resolve d e = (if set (refs e) \<subseteq> set (columns d) then Inr ()
   else Inl (AnalysisException (hd (filter (\<lambda>c. c \<notin> set (columns d)) (refs e)))))"
proof (cases "set (refs e) \<subseteq> set (columns d)")
  case True
  then have "filter (\<lambda>c. c \<notin> set (columns d)) (refs e) = []"
    by (auto simp: filter_empty_conv)
  with True show ?thesis by (simp add: resolve_def)
next
  case False
  then have "filter (\<lambda>c. c \<notin> set (columns d)) (refs e) \<noteq> []"
    by (auto simp: filter_empty_conv)
  with False show ?thesis by (cases "filter (\<lambda>c. c \<notin> set (columns d)) (refs e)") (simp_all add: resolve_def)
qed

lemma or3_between:
  "or3 (map_option (\<lambda>v. v < lo) (as_num x)) (map_option (\<lambda>v. v > hi) (as_num x)) = Some True
     \<longleftrightarrow> (case x of Num y \<Rightarrow> y < lo \<or> hi < y | _ \<Rightarrow> False)"
  by (cases x) (auto simp: or3_True)

lemma between_eval:
  "expect_column_values_to_be_between v c lo hi =
     (if c \<in> set (columns (df v))
      then Inr (v\<lparr>results := results v @
             [\<lparr>expectation_type = ''expect_column_values_to_be_between'',
               success = (filter (out_of_range c lo hi) (rows (df v)) = []),
               details = [(''column'', DStr c), (''min'', DFloat lo), (''max'', DFloat hi),
                          (''out_of_range_count'',
                             DInt (int (length (filter (out_of_range c lo hi) (rows (df v)))))),
                          (''total_count'', DInt (int (length (rows (df v)))))]\<rparr>]\<rparr>)
      else Inl (AnalysisException c))"
  by (simp add: expect_column_values_to_be_between_def df_filter_def resolve_iff exn_bind_def
      col_or_def col_lt_def col_gt_def col_def df_count_def Let_def or3_between
      out_of_range_def [abs_def])

lemma not_null_eval:
  "expect_column_values_to_not_be_null v c =
     (if c \<in> set (columns (df v))
      then Inr (v\<lparr>results := results v @
             [\<lparr>expectation_type = ''expect_column_values_to_not_be_null'',
               success = (filter (\<lambda>r. cell r c = Null) (rows (df v)) = []),
               details = [(''column'', DStr c),
                          (''null_count'',
                             DInt (int (length (filter (\<lambda>r. cell r c = Null) (rows (df v)))))),
                          (''total_count'', DInt (int (length (rows (df v)))))]\<rparr>]\<rparr>)
      else Inl (AnalysisException c))"
  by (simp add: expect_column_values_to_not_be_null_def df_filter_def resolve_iff exn_bind_def
      isNull_def col_def df_count_def Let_def)

lemma row_count_eval:
  "expect_table_row_count_to_be_greater_than v n =
     Inr (v\<lparr>results := results v @
             [\<lparr>expectation_type = ''expect_table_row_count_to_be_greater_than'',
               success = (int (length (rows (df v))) > n),
               details = [(''row_count'', DInt (int (length (rows (df v))))),
                          (''min_expected'', DInt n)]\<rparr>]\<rparr>)"
  by (simp add: expect_table_row_count_to_be_greater_than_def df_count_def Let_def)






text \<open>
  C6, as stated, fails: on a frame without the target column, \<^verbatim>\<open>not_null\<close> and
  \<^verbatim>\<open>between\<close> raise the engine's analysis error and add no result.
\<close>

theorem rules_missing_column_counterexample:
  "expect_column_values_to_not_be_null
     (DataValidator \<lparr>columns = [''id''], rows = [[(''id'', Num 1)]]\<rparr> ''raw_weather'') ''city''
     = Inl (AnalysisException ''city'')
   \<and> expect_column_values_to_be_between
     (DataValidator \<lparr>columns = [''id''], rows = [[(''id'', Num 1)]]\<rparr> ''raw_weather'')
     ''temperature_c'' (- 90) 60
     = Inl (AnalysisException ''temperature_c'')"
  by (simp add: not_null_eval between_eval DataValidator_def)

text \<open>
  C6, amended. On a frame with a plain schema, whose cells are strings, numbers or
  NULL, and for a plain target name:
  \<^verbatim>\<open>row_count_greater_than\<close> always returns a result. \<^verbatim>\<open>not_null\<close> and
  \<^verbatim>\<open>between\<close> return a result exactly when the target column is in the schema, and
  raise the analysis error for that column exactly when it is not. With the column in
  the schema, a record that lacks the field counts as null: \<^verbatim>\<open>not_null\<close> succeeds
  exactly when no record's cell is NULL, and \<^verbatim>\<open>null_count\<close> counts those records.
\<close>

theorem rules_return_iff_column_in_schema:
  assumes "plain_name c" and "plain_schema (df v)"
  shows
  "((\<exists>v'. expect_column_values_to_not_be_null v c = Inr v') \<longleftrightarrow> c \<in> set (columns (df v)))
   \<and> (expect_column_values_to_not_be_null v c = Inl (AnalysisException c)
        \<longleftrightarrow> c \<notin> set (columns (df v)))
   \<and> ((\<exists>v'. expect_column_values_to_be_between v c lo hi = Inr v')
        \<longleftrightarrow> c \<in> set (columns (df v)))
   \<and> (expect_column_values_to_be_between v c lo hi = Inl (AnalysisException c)
        \<longleftrightarrow> c \<notin> set (columns (df v)))
   \<and> (\<exists>v'. expect_table_row_count_to_be_greater_than v n = Inr v')
   \<and> (c \<in> set (columns (df v)) \<longrightarrow>
        (\<exists>res. expect_column_values_to_not_be_null v c = Inr (v\<lparr>results := results v @ [res]\<rparr>)
           \<and> success res = (\<not> (\<exists>r \<in> set (rows (df v)). cell r c = Null))
           \<and> map_of (details res) ''null_count''
                 = Some (DInt (int (length (filter (\<lambda>r. cell r c = Null) (rows (df v))))))))"
  by (auto simp: not_null_eval between_eval row_count_eval filter_empty_conv)

theorem rules_return_iff_column_in_schema_witness:
  "plain_name ''city''
   \<and> plain_schema (df (DataValidator
       \<lparr>columns = [''city'', ''temperature_c''],
        rows = [[(''city'', Str ''Austin''), (''temperature_c'', Num 20)],
                [(''temperature_c'', Num 21)]]\<rparr> ''raw_weather''))
   \<and> ''city'' \<in> set (columns (df (DataValidator
       \<lparr>columns = [''city'', ''temperature_c''],
        rows = [[(''city'', Str ''Austin''), (''temperature_c'', Num 20)],
                [(''temperature_c'', Num 21)]]\<rparr> ''raw_weather'')))
   \<and> (\<exists>res. expect_column_values_to_not_be_null
         (DataValidator
           \<lparr>columns = [''city'', ''temperature_c''],
            rows = [[(''city'', Str ''Austin''), (''temperature_c'', Num 20)],
                    [(''temperature_c'', Num 21)]]\<rparr> ''raw_weather'') ''city''
         = Inr ((DataValidator
           \<lparr>columns = [''city'', ''temperature_c''],
            rows = [[(''city'', Str ''Austin''), (''temperature_c'', Num 20)],
                    [(''temperature_c'', Num 21)]]\<rparr> ''raw_weather'')\<lparr>results := [res]\<rparr>)
       \<and> \<not> success res
       \<and> map_of (details res) ''null_count'' = Some (DInt 1))"
proof -
  define v where "v = DataValidator
       \<lparr>columns = [''city'', ''temperature_c''],
        rows = [[(''city'', Str ''Austin''), (''temperature_c'', Num 20)],
                [(''temperature_c'', Num 21)]]\<rparr> ''raw_weather''"
  have p1: "plain_name ''city''" by (simp add: plain_name_def)
  have p2: "plain_schema (df v)" by (simp add: v_def DataValidator_def plain_schema_def plain_name_def)
  have h: "''city'' \<in> set (columns (df v))" by (simp add: v_def DataValidator_def)
  note T = rules_return_iff_column_in_schema [OF p1 p2]
  from T [THEN conjunct2, THEN conjunct2, THEN conjunct2, THEN conjunct2, THEN conjunct2,
          THEN mp, OF h]
  obtain res where
    r1: "expect_column_values_to_not_be_null v ''city'' = Inr (v\<lparr>results := results v @ [res]\<rparr>)"
    and r2: "success res = (\<not> (\<exists>r \<in> set (rows (df v)). cell r ''city'' = Null))"
    and r3: "map_of (details res) ''null_count''
       = Some (DInt (int (length (filter (\<lambda>r. cell r ''city'' = Null) (rows (df v))))))"
    by (elim exE conjE)
  have "results v = []" by (simp add: v_def DataValidator_def)
  with r1 have g1: "expect_column_values_to_not_be_null v ''city'' = Inr (v\<lparr>results := [res]\<rparr>)"
    by simp
  from r2 have g2: "\<not> success res" by (simp add: v_def DataValidator_def cell_def)
  from r3 have g3: "map_of (details res) ''null_count'' = Some (DInt 1)"
    by (simp add: v_def DataValidator_def cell_def)
  from p1 p2 h g1 g2 g3 show ?thesis unfolding v_def by (intro conjI exI)
qed

section \<open>Pseudonymizer\<close>

lemma hex_digit_lower: "hex_digit n \<in> set ''0123456789abcdef''"
proof -
  have "n mod 16 < length ''0123456789abcdef''" by simp
  then show ?thesis unfolding hex_digit_def by (rule nth_mem)
qed

lemma hexdigest_lower: "set (hexdigest bs) \<subseteq> set ''0123456789abcdef''"
  unfolding hexdigest_def using hex_digit_lower by (induction bs) auto

lemma length_hexdigest: "length (hexdigest bs) = 2 * length bs"
  unfolding hexdigest_def by (induction bs) auto

lemma utf8_code_point_encodable: "encodable c \<Longrightarrow> \<exists>bs. utf8_code_point c = Inr bs"
  by (auto simp: encodable_def utf8_code_point_def)

lemma utf8_code_point_surrogate: "\<not> encodable c \<Longrightarrow> utf8_code_point c = Inl UnicodeEncodeError"
  by (auto simp: encodable_def utf8_code_point_def)

lemma encode_utf8_encodable: "list_all encodable s \<Longrightarrow> \<exists>bs. encode_utf8 s = Inr bs"
proof (induction s)
  case Nil
  show ?case by simp
next
  case (Cons c cs)
  then obtain bs rest where "utf8_code_point c = Inr bs" "encode_utf8 cs = Inr rest"
    using utf8_code_point_encodable [of c] by auto
  then show ?case by (simp add: exn_bind_def)
qed

lemma encode_utf8_raises:
  "\<not> list_all encodable s \<Longrightarrow> encode_utf8 s = Inl UnicodeEncodeError"
proof (induction s)
  case Nil
  then show ?case by simp
next
  case (Cons c cs)
  show ?case
  proof (cases "encodable c")
    case True
    with Cons.prems have "\<not> list_all encodable cs" by simp
    then have "encode_utf8 cs = Inl UnicodeEncodeError" by (rule Cons.IH)
    moreover from True obtain bs where "utf8_code_point c = Inr bs"
      using utf8_code_point_encodable by blast
    ultimately show ?thesis by (simp add: exn_bind_def)
  next
    case False
    then show ?thesis by (simp add: utf8_code_point_surrogate exn_bind_def)
  qed
qed

lemma encode_utf8_ascii: "list_all (\<lambda>c. c < 0x80) s \<Longrightarrow> encode_utf8 s = Inr (map of_nat s)"
  by (induction s) (simp_all add: utf8_code_point_def exn_bind_def)



text \<open>
  C3, as stated, fails: on a string with a surrogate code point, which has no UTF-8
  encoding, \<^verbatim>\<open>pseudonymize_column\<close> raises \<^verbatim>\<open>UnicodeEncodeError\<close> and returns no
  digest.
\<close>

theorem pseudonymize_column_surrogate_counterexample:
  "pseudonymize_column id (Some [0xD800]) = Inl UnicodeEncodeError"
  by (simp add: pseudonymize_column_def utf8_code_point_def exn_bind_def)

text \<open>
  C3, amended. \<^verbatim>\<open>pseudonymize_column\<close> returns \<^verbatim>\<open>None\<close> for \<^verbatim>\<open>None\<close>. For a string
  without surrogate code points it returns the hexadecimal digest of the hash of the
  string's UTF-8 bytes: two digits per digest byte, each a digit or a lowercase letter
  a to f. For a string with a surrogate code point it raises. The result is a function
  of the string and of the hash function alone: nothing else, no salt, enters it. The
  bytes are those of UTF-8: a string of code points below 128 encodes to those bytes,
  U+00E9 to C3 A9, U+20AC to E2 82 AC, U+1F600 to F0 9F 98 80, and the first and last
  code points of each length as UTF-8 sets them; the digits are those of
  \<^verbatim>\<open>hexdigest\<close>, high before low.
\<close>

theorem pseudonymize_column_digest:
  "pseudonymize_column sha None = Inr None
   \<and> (list_all encodable s \<longrightarrow>
        (\<exists>bs. encode_utf8 s = Inr bs
           \<and> pseudonymize_column sha (Some s) = Inr (Some (hexdigest (sha bs)))
           \<and> set (hexdigest (sha bs)) \<subseteq> set ''0123456789abcdef''
           \<and> length (hexdigest (sha bs)) = 2 * length (sha bs)))
   \<and> (\<not> list_all encodable s \<longrightarrow> pseudonymize_column sha (Some s) = Inl UnicodeEncodeError)
   \<and> (list_all (\<lambda>c. c < 0x80) s \<longrightarrow> encode_utf8 s = Inr (map of_nat s))
   \<and> encode_utf8 [0xE9] = Inr [0xC3, 0xA9]
   \<and> encode_utf8 [0x20AC] = Inr [0xE2, 0x82, 0xAC]
   \<and> encode_utf8 [0x1F600] = Inr [0xF0, 0x9F, 0x98, 0x80]
   \<and> encode_utf8 [0x7F, 0x80, 0x7FF, 0x800, 0xD7FF, 0xE000, 0xFFFF, 0x10000, 0x10FFFF]
       = Inr [0x7F, 0xC2, 0x80, 0xDF, 0xBF, 0xE0, 0xA0, 0x80, 0xED, 0x9F, 0xBF, 0xEE, 0x80, 0x80,
              0xEF, 0xBF, 0xBF, 0xF0, 0x90, 0x80, 0x80, 0xF4, 0x8F, 0xBF, 0xBF]
   \<and> hexdigest [0x00, 0x0F, 0xA9, 0xFF] = ''000fa9ff''"
proof (intro conjI impI)
  show "pseudonymize_column sha None = Inr None"
    by (simp add: pseudonymize_column_def)
next
  assume "list_all encodable s"
  then obtain bs where bs: "encode_utf8 s = Inr bs"
    using encode_utf8_encodable by blast
  then have "pseudonymize_column sha (Some s) = Inr (Some (hexdigest (sha bs)))"
    by (simp add: pseudonymize_column_def exn_bind_def)
  with bs show "\<exists>bs. encode_utf8 s = Inr bs
           \<and> pseudonymize_column sha (Some s) = Inr (Some (hexdigest (sha bs)))
           \<and> set (hexdigest (sha bs)) \<subseteq> set ''0123456789abcdef''
           \<and> length (hexdigest (sha bs)) = 2 * length (sha bs)"
    using hexdigest_lower [of "sha bs"] length_hexdigest [of "sha bs"] by blast
next
  assume "\<not> list_all encodable s"
  then show "pseudonymize_column sha (Some s) = Inl UnicodeEncodeError"
    by (simp add: pseudonymize_column_def encode_utf8_raises exn_bind_def)
next
  assume "list_all (\<lambda>c. c < 0x80) s"
  then show "encode_utf8 s = Inr (map of_nat s)" by (rule encode_utf8_ascii)
next
  show "encode_utf8 [0xE9] = Inr [0xC3, 0xA9]"
    by (simp add: utf8_code_point_def exn_bind_def)
next
  show "encode_utf8 [0x20AC] = Inr [0xE2, 0x82, 0xAC]"
    by (simp add: utf8_code_point_def exn_bind_def)
next
  show "encode_utf8 [0x1F600] = Inr [0xF0, 0x9F, 0x98, 0x80]"
    by (simp add: utf8_code_point_def exn_bind_def)
next
  show "encode_utf8 [0x7F, 0x80, 0x7FF, 0x800, 0xD7FF, 0xE000, 0xFFFF, 0x10000, 0x10FFFF]
       = Inr [0x7F, 0xC2, 0x80, 0xDF, 0xBF, 0xE0, 0xA0, 0x80, 0xED, 0x9F, 0xBF, 0xEE, 0x80, 0x80,
              0xEF, 0xBF, 0xBF, 0xF0, 0x90, 0x80, 0x80, 0xF4, 0x8F, 0xBF, 0xBF]"
    by (simp add: utf8_code_point_def exn_bind_def)
next
  show "hexdigest [0x00, 0x0F, 0xA9, 0xFF] = ''000fa9ff''"
    by (simp add: hexdigest_def hex_digit_def)
qed

theorem pseudonymize_column_digest_witness:
  "list_all encodable [0x73, 0xE9]
   \<and> pseudonymize_column id (Some [0x73, 0xE9]) = Inr (Some ''73c3a9'')
   \<and> \<not> list_all encodable [0x41, 0xDC00]
   \<and> pseudonymize_column id (Some [0x41, 0xDC00]) = Inl UnicodeEncodeError
   \<and> list_all (\<lambda>c. c < 0x80) [0x73, 0x31 :: nat]
   \<and> encode_utf8 [0x73, 0x31] = Inr [0x73, 0x31]"
proof -
  have h1: "list_all encodable [0x73, 0xE9]" by (simp add: encodable_def)
  have h2: "\<not> list_all encodable [0x41, 0xDC00]" by (simp add: encodable_def)
  have h3: "list_all (\<lambda>c. c < 0x80) [0x73, 0x31 :: nat]" by simp
  note T1 = pseudonymize_column_digest [of id "[0x73, 0xE9]"]
  note T2 = pseudonymize_column_digest [of id "[0x41, 0xDC00]"]
  note T3 = pseudonymize_column_digest [of id "[0x73, 0x31]"]
  from T1 [THEN conjunct2, THEN conjunct1, THEN mp, OF h1]
  obtain bs where bs: "encode_utf8 [0x73, 0xE9] = Inr bs"
    and p: "pseudonymize_column id (Some [0x73, 0xE9]) = Inr (Some (hexdigest (id bs)))"
    by (elim exE conjE)
  have "encode_utf8 [0x73, 0xE9] = Inr [0x73, 0xC3, 0xA9]"
    by (simp add: utf8_code_point_def exn_bind_def)
  with bs have "bs = [0x73, 0xC3, 0xA9]" by simp
  with p have g1: "pseudonymize_column id (Some [0x73, 0xE9]) = Inr (Some ''73c3a9'')"
    by (simp add: hexdigest_def hex_digit_def)
  note g2 = T2 [THEN conjunct2, THEN conjunct2, THEN conjunct1, THEN mp, OF h2]
  from T3 [THEN conjunct2, THEN conjunct2, THEN conjunct2, THEN conjunct1, THEN mp, OF h3]
  have g3: "encode_utf8 [0x73, 0x31] = Inr [0x73, 0x31]" by simp
  from h1 g1 h2 g2 h3 g3 show ?thesis by (intro conjI)
qed

section \<open>Quality classifier\<close>

lemma ev_quality_score:
  "ev quality_score r =
     (if as_num (cell r ''battery_level'') \<noteq> None \<and> the (as_num (cell r ''battery_level'')) \<ge> 50
         \<and> cell r ''temperature_c'' \<noteq> Null \<and> cell r ''humidity_pct'' \<noteq> Null
         \<and> cell r ''aqi'' \<noteq> Null
      then Str ''PASS''
      else if as_num (cell r ''battery_level'') \<noteq> None \<and> the (as_num (cell r ''battery_level'')) \<ge> 20
           then Str ''WARN'' else Str ''FAIL'')"
  by (cases "as_num (cell r ''battery_level'')")
     (simp_all add: quality_score_def when_otherwise_def col_and_def col_ge_def isNotNull_def
        col_def and3_True)

text \<open>
  C4. On a record whose battery level is a number \<open>b\<close>, the classification is PASS
  exactly when \<open>b \<ge> 50\<close> and the temperature, humidity and air-quality cells are all
  non-null, else WARN exactly when \<open>b \<ge> 20\<close>, else FAIL. On a record whose battery
  level is NULL it is FAIL. The classification is a value in every case.
\<close>

theorem quality_score_cascade:
  "(cell r ''battery_level'' = Num b \<longrightarrow>
      ev quality_score r =
        (if b \<ge> 50 \<and> cell r ''temperature_c'' \<noteq> Null \<and> cell r ''humidity_pct'' \<noteq> Null
            \<and> cell r ''aqi'' \<noteq> Null
         then Str ''PASS''
         else if b \<ge> 20 then Str ''WARN'' else Str ''FAIL''))
   \<and> (cell r ''battery_level'' = Null \<longrightarrow> ev quality_score r = Str ''FAIL'')"
  by (simp add: ev_quality_score)

theorem quality_score_cascade_witness:
  "ev quality_score [(''battery_level'', Num 60), (''temperature_c'', Num 1),
                     (''humidity_pct'', Num 1), (''aqi'', Num 1)] = Str ''PASS''
   \<and> ev quality_score [(''battery_level'', Num 30), (''temperature_c'', Null),
                     (''humidity_pct'', Num 1), (''aqi'', Num 1)] = Str ''WARN''
   \<and> ev quality_score [(''battery_level'', Num 10), (''temperature_c'', Num 1),
                     (''humidity_pct'', Num 1), (''aqi'', Num 1)] = Str ''FAIL''
   \<and> ev quality_score [(''battery_level'', Null), (''temperature_c'', Num 1),
                     (''humidity_pct'', Num 1), (''aqi'', Num 1)] = Str ''FAIL''"
  using quality_score_cascade [of "[(''battery_level'', Num 60), (''temperature_c'', Num 1),
                     (''humidity_pct'', Num 1), (''aqi'', Num 1)]" 60]
    quality_score_cascade [of "[(''battery_level'', Num 30), (''temperature_c'', Null),
                     (''humidity_pct'', Num 1), (''aqi'', Num 1)]" 30]
    quality_score_cascade [of "[(''battery_level'', Num 10), (''temperature_c'', Num 1),
                     (''humidity_pct'', Num 1), (''aqi'', Num 1)]" 10]
    quality_score_cascade [of "[(''battery_level'', Null), (''temperature_c'', Num 1),
                     (''humidity_pct'', Num 1), (''aqi'', Num 1)]" 0]
  by (simp add: cell_def)

section \<open>Transform stages\<close>

lemma cell_update: "cell (AList.update k v r) c = (if c = k then v else cell r c)"
  by (simp add: cell_def update_conv')

lemma cell_delete: "cell (AList.delete k r) c = (if c = k then Null else cell r c)"
  by (simp add: cell_def delete_conv')

lemma withColumn_eval:
  "withColumn d name e =
     (if set (refs e) \<subseteq> set (columns d)
      then Inr \<lparr>columns = (if name \<in> set (columns d) then columns d else columns d @ [name]),
                rows = map (\<lambda>r. AList.update name (ev e r) r) (rows d)\<rparr>
      else Inl (AnalysisException (hd (filter (\<lambda>c. c \<notin> set (columns d)) (refs e)))))"
  by (simp add: withColumn_def resolve_iff exn_bind_def)

lemma refs_simps:
  "refs (col c) = [c]"
  "refs (col_mul ar e k) = refs e"
  "refs (col_div ar e k) = refs e"
  "refs (col_add ar e k) = refs e"
  "refs (col_round ar e n) = refs e"
  "refs (substring e p l) = refs e"
  "refs (udf f e) = refs e"
  by (simp_all add: col_def col_mul_def col_div_def col_add_def col_round_def substring_def
      udf_def num_lift_def)

lemma refs_quality_score:
  "set (refs quality_score) = {''battery_level'', ''temperature_c'', ''humidity_pct'', ''aqi''}"
  by (auto simp: quality_score_def when_otherwise_def col_and_def col_ge_def isNotNull_def col_def)


lemma ev_date:
  "ev (substring (col c) (Suc 0) n) r =
     (case cell r c of Str s \<Rightarrow> Str (take n s) | _ \<Rightarrow> Null)"
  by (cases "cell r c") (simp_all add: substring_def col_def)







lemma ev_col: "ev (col c) r = cell r c"
  by (simp add: col_def)

lemma ev_udf: "ev (udf f e) r = f (ev e r)"
  by (simp add: udf_def)

lemma quality_score_frame:
  "ev quality_score (AList.delete ''sensor_id'' (AList.update ''sensor_id_hash'' v r))
     = ev quality_score r"
  by (simp add: ev_quality_score cell_update cell_delete cong: if_cong)

lemma iot_transformed_df_returns:
  "(\<exists>d. iot_transformed_df sha raw = Inr d)
     \<longleftrightarrow> {''sensor_id'', ''battery_level'', ''temperature_c'', ''humidity_pct'', ''aqi'',
          ''timestamp''} \<subseteq> set (columns raw)"
  by (auto simp: iot_transformed_df_def withColumn_eval refs_simps refs_quality_score
      exn_bind_def drop_column_def)

lemma iot_transformed_df_Inr:
  assumes "iot_transformed_df sha raw = Inr d"
  shows "d = \<lparr>columns =
                 (let c1 = (if ''sensor_id_hash'' \<in> set (columns raw) then columns raw
                            else columns raw @ [''sensor_id_hash'']);
                      c2 = filter (\<lambda>c. c \<noteq> ''sensor_id'') c1;
                      c3 = (if ''quality_score'' \<in> set c2 then c2 else c2 @ [''quality_score''])
                  in if ''date'' \<in> set c3 then c3 else c3 @ [''date'']),
               rows = map (\<lambda>r.
                 AList.update ''date''
                   (case cell r ''timestamp'' of Str s \<Rightarrow> Str (take 10 s) | _ \<Rightarrow> Null)
                   (AList.update ''quality_score'' (ev quality_score r)
                      (AList.delete ''sensor_id''
                         (AList.update ''sensor_id_hash''
                            (pseudonymize_udf sha (cell r ''sensor_id'')) r))))
                 (rows raw)\<rparr>"
proof -
  from assms have cols: "{''sensor_id'', ''battery_level'', ''temperature_c'', ''humidity_pct'',
      ''aqi'', ''timestamp''} \<subseteq> set (columns raw)"
    using iot_transformed_df_returns [of sha raw] by blast
  let ?d1 = "\<lparr>columns = (if ''sensor_id_hash'' \<in> set (columns raw) then columns raw
                            else columns raw @ [''sensor_id_hash'']),
              rows = map (\<lambda>r. AList.update ''sensor_id_hash''
                                 (pseudonymize_udf sha (cell r ''sensor_id'')) r) (rows raw)\<rparr>"
  have s1: "withColumn raw ''sensor_id_hash'' (udf (pseudonymize_udf sha) (col ''sensor_id''))
              = Inr ?d1"
    using cols by (simp add: withColumn_eval refs_simps ev_udf ev_col)
  let ?d2 = "drop_column ?d1 ''sensor_id''"
  let ?d3 = "\<lparr>columns = (if ''quality_score'' \<in> set (columns ?d2) then columns ?d2
                            else columns ?d2 @ [''quality_score'']),
              rows = map (\<lambda>r. AList.update ''quality_score'' (ev quality_score r) r) (rows ?d2)\<rparr>"
  have s2: "withColumn ?d2 ''quality_score'' quality_score = Inr ?d3"
    using cols by (simp add: withColumn_eval refs_quality_score drop_column_def)
  have s3: "withColumn ?d3 ''date'' (substring (col ''timestamp'') 1 10)
              = Inr \<lparr>columns = (if ''date'' \<in> set (columns ?d3) then columns ?d3
                                   else columns ?d3 @ [''date'']),
                       rows = map (\<lambda>r. AList.update ''date''
                                 (ev (substring (col ''timestamp'') 1 10) r) r) (rows ?d3)\<rparr>"
    using cols by (simp add: withColumn_eval refs_simps drop_column_def)
  have "iot_transformed_df sha raw
          = Inr \<lparr>columns = (if ''date'' \<in> set (columns ?d3) then columns ?d3
                                   else columns ?d3 @ [''date'']),
                       rows = map (\<lambda>r. AList.update ''date''
                                 (ev (substring (col ''timestamp'') 1 10) r) r) (rows ?d3)\<rparr>"
    unfolding iot_transformed_df_def by (simp only: s1 s2 s3 exn_bind_def sum.case)
  with assms have "d = \<lparr>columns = (if ''date'' \<in> set (columns ?d3) then columns ?d3
                                   else columns ?d3 @ [''date'']),
                       rows = map (\<lambda>r. AList.update ''date''
                                 (ev (substring (col ''timestamp'') 1 10) r) r) (rows ?d3)\<rparr>"
    by simp
  then show ?thesis
    by (simp add: drop_column_def Let_def comp_def ev_date cell_update cell_delete
        quality_score_frame)
qed




section \<open>Transform pipeline\<close>


lemma iot_expectations_returns:
  "(\<exists>v'. iot_expectations v = Inr v')
     \<longleftrightarrow> {''sensor_id'', ''city'', ''timestamp'', ''temperature_c'', ''humidity_pct'', ''aqi'',
          ''battery_level''} \<subseteq> set (columns (df v))"
  by (simp add: iot_expectations_def not_null_eval between_eval row_count_eval exn_bind_def)


lemma effects_iot_after_validation:
  "effects (iot_after_validation rt cp db raw rep w) =
     (case iot_transformed_df (sha256 rt) raw of
        Inl e \<Rightarrow> (Some e, written w, statements w)
      | Inr cur \<Rightarrow>
          effects (and_then (write_parquet rt cur ''date'' cp w)
                     (spark_sql rt (''MSCK REPAIR TABLE `'' @ db @ ''`.curated_sensor_readings''))))"
  by (simp add: iot_after_validation_def Let_def effects_def and_then_def write_parquet_def
      spark_sql_def logger_def split: sum.splits option.splits)



lemma transform_iot_validated:
  assumes "read_json rt (''s3://'' @ b @ ''/raw/iot-sensors/'') = Inr raw" "\<not> isEmpty raw"
    and "iot_expectations (DataValidator raw ''raw_iot_sensors'') = Inr v"
  shows "transform_iot_sensors rt b db w =
           iot_after_validation rt (''s3://'' @ b @ ''/curated/sensor-readings/'') db raw (validate v)
             (logger ''transform_iot_sensors'' INFO ''Starting IoT sensor transform'' [] w)"
  using assms by (simp add: transform_iot_sensors_def Let_def)

lemma transform_weather_empty:
  assumes "read_json rt (''s3://'' @ b @ ''/raw/weather/'') = Inr d" "isEmpty d"
  shows "transform_weather rt b db w =
     (None, w\<lparr>log_lines := log_lines w @
        [(''transform_weather'', INFO, ''Starting weather transform'', []),
         (''transform_weather'', WARNING, ''No raw weather data found at %s'',
            [ArgStr (''s3://'' @ b @ ''/raw/weather/'')])]\<rparr>)"
  using assms by (simp add: transform_weather_def Let_def logger_def)

lemma transform_weather_unreadable:
  assumes "read_json rt (''s3://'' @ b @ ''/raw/weather/'') = Inl e"
  shows "transform_weather rt b db w =
     (None, w\<lparr>log_lines := log_lines w @
        [(''transform_weather'', INFO, ''Starting weather transform'', []),
         (''transform_weather'', ERROR, ''Failed to read raw weather data: %s'',
            [ArgExn e])]\<rparr>)"
  using assms by (simp add: transform_weather_def Let_def logger_def)

lemma transform_iot_empty:
  assumes "read_json rt (''s3://'' @ b @ ''/raw/iot-sensors/'') = Inr d" "isEmpty d"
  shows "transform_iot_sensors rt b db w =
     (None, w\<lparr>log_lines := log_lines w @
        [(''transform_iot_sensors'', INFO, ''Starting IoT sensor transform'', []),
         (''transform_iot_sensors'', WARNING, ''No raw IoT sensor data found at %s'',
            [ArgStr (''s3://'' @ b @ ''/raw/iot-sensors/'')])]\<rparr>)"
  using assms by (simp add: transform_iot_sensors_def Let_def logger_def)

lemma transform_iot_unreadable:
  assumes "read_json rt (''s3://'' @ b @ ''/raw/iot-sensors/'') = Inl e"
  shows "transform_iot_sensors rt b db w =
     (None, w\<lparr>log_lines := log_lines w @
        [(''transform_iot_sensors'', INFO, ''Starting IoT sensor transform'', []),
         (''transform_iot_sensors'', ERROR, ''Failed to read raw IoT sensor data: %s'',
            [ArgExn e])]\<rparr>)"
  using assms by (simp add: transform_iot_sensors_def Let_def logger_def)

lemma run_both_after_quiet_weather:
  assumes "fst (transform_weather rt b db w) = None"
  shows "run_both_transforms rt b db w
           = transform_iot_sensors rt b db (snd (transform_weather rt b db w))"
  using assms by (cases "transform_weather rt b db w") (simp add: run_both_transforms_def and_then_def)

lemma run_both_with_quiet_iot:
  assumes "\<And>w. \<exists>ls. transform_iot_sensors rt b db w = (None, w\<lparr>log_lines := ls\<rparr>)"
  shows "effects (run_both_transforms rt b db w) = effects (transform_weather rt b db w)"
proof (cases "transform_weather rt b db w")
  case (Pair x w1)
  from assms [of w1] obtain ls where ls: "transform_iot_sensors rt b db w1 = (None, w1\<lparr>log_lines := ls\<rparr>)"
    by (elim exE)
  show ?thesis
    by (cases x) (simp_all add: Pair ls run_both_transforms_def and_then_def effects_def)
qed


lemma date_in_iot_transformed:
  "iot_transformed_df sha raw = Inr cur \<Longrightarrow> ''date'' \<in> set (columns cur)"
  by (drule iot_transformed_df_Inr) (erule ssubst, simp add: Let_def)

lemma effects_write_then_sql_ok:
  assumes "p \<in> set (columns d)" "write_error rt path = None" "sql_error rt stmt = None"
  shows "effects (and_then (write_parquet rt d p path w) (spark_sql rt stmt))
           = (None, AList.update path d (written w), statements w @ [stmt])"
  using assms by (simp add: effects_def and_then_def write_parquet_def spark_sql_def)

lemma runtime_with_simps:
  "sha256 (runtime_with fs) = (\<lambda>bs. bs)"
  "read_json (runtime_with fs) p = (case map_of fs p of None \<Rightarrow> Inl (ExternalError p) | Some d \<Rightarrow> Inr d)"
  "write_error (runtime_with fs) p = None"
  "sql_error (runtime_with fs) s = None"
  "arith (runtime_with fs) = exact_arithmetic"
  by (simp_all add: runtime_with_def)

lemma transform_iot_sensors_completes:
  assumes r: "read_json rt (''s3://'' @ b @ ''/raw/iot-sensors/'') = Inr raw"
    and ne: "\<not> isEmpty raw"
    and cols: "{''sensor_id'', ''city'', ''timestamp'', ''temperature_c'', ''humidity_pct'', ''aqi'',
             ''battery_level''} \<subseteq> set (columns raw)"
    and w_ok: "write_error rt (''s3://'' @ b @ ''/curated/sensor-readings/'') = None"
    and s_ok: "sql_error rt (''MSCK REPAIR TABLE `'' @ db @ ''`.curated_sensor_readings'') = None"
  shows "\<exists>cur. iot_transformed_df (sha256 rt) raw = Inr cur
           \<and> effects (transform_iot_sensors rt b db w)
               = (None, AList.update (''s3://'' @ b @ ''/curated/sensor-readings/'') cur (written w),
                  statements w @ [''MSCK REPAIR TABLE `'' @ db @ ''`.curated_sensor_readings''])"
proof -
  from cols have cols1: "{''sensor_id'', ''city'', ''timestamp'', ''temperature_c'', ''humidity_pct'',
      ''aqi'', ''battery_level''} \<subseteq> set (columns (df (DataValidator raw ''raw_iot_sensors'')))"
    by (simp add: DataValidator_def)
  from iot_expectations_returns [THEN iffD2, OF cols1]
  obtain v where v: "iot_expectations (DataValidator raw ''raw_iot_sensors'') = Inr v"
    by (elim exE)
  from cols have cols2: "{''sensor_id'', ''battery_level'', ''temperature_c'', ''humidity_pct'',
      ''aqi'', ''timestamp''} \<subseteq> set (columns raw)"
    by simp
  from iot_transformed_df_returns [of "sha256 rt" raw, THEN iffD2, OF cols2]
  obtain cur where cur: "iot_transformed_df (sha256 rt) raw = Inr cur"
    by (elim exE)
  let ?w1 = "logger ''transform_iot_sensors'' INFO ''Starting IoT sensor transform'' [] w"
  have "effects (transform_iot_sensors rt b db w)
          = effects (and_then
              (write_parquet rt cur ''date'' (''s3://'' @ b @ ''/curated/sensor-readings/'') ?w1)
              (spark_sql rt (''MSCK REPAIR TABLE `'' @ db @ ''`.curated_sensor_readings'')))"
    by (simp only: transform_iot_validated [OF r ne v] effects_iot_after_validation cur sum.case)
  also have "\<dots> = (None, AList.update (''s3://'' @ b @ ''/curated/sensor-readings/'') cur (written ?w1),
                  statements ?w1 @ [''MSCK REPAIR TABLE `'' @ db @ ''`.curated_sensor_readings''])"
    by (rule effects_write_then_sql_ok [OF date_in_iot_transformed [OF cur] w_ok s_ok])
  finally have "effects (transform_iot_sensors rt b db w)
               = (None, AList.update (''s3://'' @ b @ ''/curated/sensor-readings/'') cur (written w),
                  statements w @ [''MSCK REPAIR TABLE `'' @ db @ ''`.curated_sensor_readings''])"
    by (simp add: logger_def)
  with cur show ?thesis by (intro exI conjI)
qed




text \<open>
  C7. A variant whose raw frame is empty returns without exception after logging a
  warning, and a variant whose read raises returns without exception after logging the
  error; in both cases the world is unchanged but for the two log lines: nothing is
  written, no statement is executed. When the weather variant is skipped in either way,
  the run of both transforms is the sensor transform run on that world; when the sensor
  variant is skipped in either way, the run of both transforms leaves behind exactly
  what the weather transform leaves behind.
\<close>

theorem skipped_variant_leaves_other_running:
  "(read_json rt (''s3://'' @ b @ ''/raw/weather/'') = Inr d \<and> isEmpty d \<longrightarrow>
      transform_weather rt b db w =
        (None, w\<lparr>log_lines := log_lines w @
           [(''transform_weather'', INFO, ''Starting weather transform'', []),
            (''transform_weather'', WARNING, ''No raw weather data found at %s'',
               [ArgStr (''s3://'' @ b @ ''/raw/weather/'')])]\<rparr>)
      \<and> run_both_transforms rt b db w
          = transform_iot_sensors rt b db (snd (transform_weather rt b db w)))
   \<and> (read_json rt (''s3://'' @ b @ ''/raw/weather/'') = Inl e \<longrightarrow>
      transform_weather rt b db w =
        (None, w\<lparr>log_lines := log_lines w @
           [(''transform_weather'', INFO, ''Starting weather transform'', []),
            (''transform_weather'', ERROR, ''Failed to read raw weather data: %s'',
               [ArgExn e])]\<rparr>)
      \<and> run_both_transforms rt b db w
          = transform_iot_sensors rt b db (snd (transform_weather rt b db w)))
   \<and> (read_json rt (''s3://'' @ b @ ''/raw/iot-sensors/'') = Inr d \<and> isEmpty d \<longrightarrow>
      transform_iot_sensors rt b db w =
        (None, w\<lparr>log_lines := log_lines w @
           [(''transform_iot_sensors'', INFO, ''Starting IoT sensor transform'', []),
            (''transform_iot_sensors'', WARNING, ''No raw IoT sensor data found at %s'',
               [ArgStr (''s3://'' @ b @ ''/raw/iot-sensors/'')])]\<rparr>)
      \<and> effects (run_both_transforms rt b db w) = effects (transform_weather rt b db w))
   \<and> (read_json rt (''s3://'' @ b @ ''/raw/iot-sensors/'') = Inl e \<longrightarrow>
      transform_iot_sensors rt b db w =
        (None, w\<lparr>log_lines := log_lines w @
           [(''transform_iot_sensors'', INFO, ''Starting IoT sensor transform'', []),
            (''transform_iot_sensors'', ERROR, ''Failed to read raw IoT sensor data: %s'',
               [ArgExn e])]\<rparr>)
      \<and> effects (run_both_transforms rt b db w) = effects (transform_weather rt b db w))"
proof (intro conjI impI)
  assume a: "read_json rt (''s3://'' @ b @ ''/raw/weather/'') = Inr d \<and> isEmpty d"
  then have r: "read_json rt (''s3://'' @ b @ ''/raw/weather/'') = Inr d" and e: "isEmpty d"
    by simp_all
  show "transform_weather rt b db w =
        (None, w\<lparr>log_lines := log_lines w @
           [(''transform_weather'', INFO, ''Starting weather transform'', []),
            (''transform_weather'', WARNING, ''No raw weather data found at %s'',
               [ArgStr (''s3://'' @ b @ ''/raw/weather/'')])]\<rparr>)"
    by (rule transform_weather_empty [OF r e])
  then have "fst (transform_weather rt b db w) = None" by (simp only: fst_conv)
  then show "run_both_transforms rt b db w
          = transform_iot_sensors rt b db (snd (transform_weather rt b db w))"
    by (rule run_both_after_quiet_weather)
next
  assume r: "read_json rt (''s3://'' @ b @ ''/raw/weather/'') = Inl e"
  show "transform_weather rt b db w =
        (None, w\<lparr>log_lines := log_lines w @
           [(''transform_weather'', INFO, ''Starting weather transform'', []),
            (''transform_weather'', ERROR, ''Failed to read raw weather data: %s'',
               [ArgExn e])]\<rparr>)"
    by (rule transform_weather_unreadable [OF r])
  then have "fst (transform_weather rt b db w) = None" by (simp only: fst_conv)
  then show "run_both_transforms rt b db w
          = transform_iot_sensors rt b db (snd (transform_weather rt b db w))"
    by (rule run_both_after_quiet_weather)
next
  assume a: "read_json rt (''s3://'' @ b @ ''/raw/iot-sensors/'') = Inr d \<and> isEmpty d"
  then have r: "read_json rt (''s3://'' @ b @ ''/raw/iot-sensors/'') = Inr d" and e: "isEmpty d"
    by simp_all
  show "transform_iot_sensors rt b db w =
        (None, w\<lparr>log_lines := log_lines w @
           [(''transform_iot_sensors'', INFO, ''Starting IoT sensor transform'', []),
            (''transform_iot_sensors'', WARNING, ''No raw IoT sensor data found at %s'',
               [ArgStr (''s3://'' @ b @ ''/raw/iot-sensors/'')])]\<rparr>)"
    by (rule transform_iot_empty [OF r e])
  show "effects (run_both_transforms rt b db w) = effects (transform_weather rt b db w)"
    by (rule run_both_with_quiet_iot) (simp only: transform_iot_empty [OF r e], rule exI, rule refl)
next
  assume r: "read_json rt (''s3://'' @ b @ ''/raw/iot-sensors/'') = Inl e"
  show "transform_iot_sensors rt b db w =
        (None, w\<lparr>log_lines := log_lines w @
           [(''transform_iot_sensors'', INFO, ''Starting IoT sensor transform'', []),
            (''transform_iot_sensors'', ERROR, ''Failed to read raw IoT sensor data: %s'',
               [ArgExn e])]\<rparr>)"
    by (rule transform_iot_unreadable [OF r])
  show "effects (run_both_transforms rt b db w) = effects (transform_weather rt b db w)"
    by (rule run_both_with_quiet_iot) (simp only: transform_iot_unreadable [OF r], rule exI, rule refl)
qed

theorem skipped_variant_leaves_other_running_witness:
  "isEmpty \<lparr>columns = [], rows = []\<rparr>
   \<and> transform_weather
        (runtime_with [(''s3://lake/raw/weather/'', \<lparr>columns = [], rows = []\<rparr>)])
        ''lake'' ''db'' fresh_world
      = (None, fresh_world\<lparr>log_lines :=
           [(''transform_weather'', INFO, ''Starting weather transform'', []),
            (''transform_weather'', WARNING, ''No raw weather data found at %s'',
               [ArgStr ''s3://lake/raw/weather/''])]\<rparr>)
   \<and> transform_weather (runtime_with []) ''lake'' ''db'' fresh_world
      = (None, fresh_world\<lparr>log_lines :=
           [(''transform_weather'', INFO, ''Starting weather transform'', []),
            (''transform_weather'', ERROR, ''Failed to read raw weather data: %s'',
               [ArgExn (ExternalError ''s3://lake/raw/weather/'')])]\<rparr>)
   \<and> transform_iot_sensors
        (runtime_with [(''s3://lake/raw/iot-sensors/'', \<lparr>columns = [], rows = []\<rparr>)])
        ''lake'' ''db'' fresh_world
      = (None, fresh_world\<lparr>log_lines :=
           [(''transform_iot_sensors'', INFO, ''Starting IoT sensor transform'', []),
            (''transform_iot_sensors'', WARNING, ''No raw IoT sensor data found at %s'',
               [ArgStr ''s3://lake/raw/iot-sensors/''])]\<rparr>)
   \<and> transform_iot_sensors (runtime_with []) ''lake'' ''db'' fresh_world
      = (None, fresh_world\<lparr>log_lines :=
           [(''transform_iot_sensors'', INFO, ''Starting IoT sensor transform'', []),
            (''transform_iot_sensors'', ERROR, ''Failed to read raw IoT sensor data: %s'',
               [ArgExn (ExternalError ''s3://lake/raw/iot-sensors/'')])]\<rparr>)
   \<and> effects (run_both_transforms (runtime_with []) ''lake'' ''db'' fresh_world) = (None, [], [])
   \<and> (\<exists>cur. effects (run_both_transforms
           (runtime_with
              [(''s3://lake/raw/weather/'', \<lparr>columns = [], rows = []\<rparr>),
               (''s3://lake/raw/iot-sensors/'',
                \<lparr>columns = [''sensor_id'', ''city'', ''timestamp'', ''temperature_c'',
                            ''humidity_pct'', ''aqi'', ''battery_level''],
                 rows = [[(''sensor_id'', Str ''s1''), (''city'', Str ''Oslo''),
                          (''timestamp'', Str ''2024-06-30T12:00:00Z''),
                          (''temperature_c'', Num 25), (''humidity_pct'', Num 40),
                          (''aqi'', Num 12), (''battery_level'', Num 80)]]\<rparr>)])
           ''lake'' ''db'' fresh_world)
        = (None, [(''s3://lake/curated/sensor-readings/'', cur)],
           [''MSCK REPAIR TABLE `db`.curated_sensor_readings'']))"
proof -
  let ?empty = "\<lparr>columns = [], rows = []\<rparr> :: dataframe"
  let ?rw = "runtime_with [(''s3://lake/raw/weather/'', ?empty)]"
  let ?ri = "runtime_with [(''s3://lake/raw/iot-sensors/'', ?empty)]"
  let ?r0 = "runtime_with []"
  have e: "isEmpty ?empty" by (simp add: isEmpty_def)
  have h1: "read_json ?rw (''s3://'' @ ''lake'' @ ''/raw/weather/'') = Inr ?empty \<and> isEmpty ?empty"
    by (simp add: runtime_with_simps isEmpty_def)
  have h2: "read_json ?r0 (''s3://'' @ ''lake'' @ ''/raw/weather/'')
              = Inl (ExternalError ''s3://lake/raw/weather/'')"
    by (simp add: runtime_with_simps)
  have h3: "read_json ?ri (''s3://'' @ ''lake'' @ ''/raw/iot-sensors/'') = Inr ?empty \<and> isEmpty ?empty"
    by (simp add: runtime_with_simps isEmpty_def)
  have h4: "read_json ?r0 (''s3://'' @ ''lake'' @ ''/raw/iot-sensors/'')
              = Inl (ExternalError ''s3://lake/raw/iot-sensors/'')"
    by (simp add: runtime_with_simps)
  note c1 = skipped_variant_leaves_other_running
    [where rt = ?rw and b = "''lake''" and db = "''db''" and w = fresh_world and d = ?empty,
     THEN conjunct1, THEN mp, OF h1, THEN conjunct1]
  note c2 = skipped_variant_leaves_other_running
    [where rt = ?r0 and b = "''lake''" and db = "''db''" and w = fresh_world
       and e = "ExternalError ''s3://lake/raw/weather/''",
     THEN conjunct2, THEN conjunct1, THEN mp, OF h2]
  note c3 = skipped_variant_leaves_other_running
    [where rt = ?ri and b = "''lake''" and db = "''db''" and w = fresh_world and d = ?empty,
     THEN conjunct2, THEN conjunct2, THEN conjunct1, THEN mp, OF h3, THEN conjunct1]
  note c4 = skipped_variant_leaves_other_running
    [where rt = ?r0 and b = "''lake''" and db = "''db''" and w = fresh_world
       and e = "ExternalError ''s3://lake/raw/iot-sensors/''",
     THEN conjunct2, THEN conjunct2, THEN conjunct2, THEN mp, OF h4]
  from c1 have g1: "transform_weather ?rw ''lake'' ''db'' fresh_world
      = (None, fresh_world\<lparr>log_lines :=
           [(''transform_weather'', INFO, ''Starting weather transform'', []),
            (''transform_weather'', WARNING, ''No raw weather data found at %s'',
               [ArgStr ''s3://lake/raw/weather/''])]\<rparr>)"
    by (simp add: fresh_world_def)
  from c2 [THEN conjunct1] have g2: "transform_weather ?r0 ''lake'' ''db'' fresh_world
      = (None, fresh_world\<lparr>log_lines :=
           [(''transform_weather'', INFO, ''Starting weather transform'', []),
            (''transform_weather'', ERROR, ''Failed to read raw weather data: %s'',
               [ArgExn (ExternalError ''s3://lake/raw/weather/'')])]\<rparr>)"
    by (simp add: fresh_world_def)
  from c3 have g3: "transform_iot_sensors ?ri ''lake'' ''db'' fresh_world
      = (None, fresh_world\<lparr>log_lines :=
           [(''transform_iot_sensors'', INFO, ''Starting IoT sensor transform'', []),
            (''transform_iot_sensors'', WARNING, ''No raw IoT sensor data found at %s'',
               [ArgStr ''s3://lake/raw/iot-sensors/''])]\<rparr>)"
    by (simp add: fresh_world_def)
  from c4 [THEN conjunct1] have g4: "transform_iot_sensors ?r0 ''lake'' ''db'' fresh_world
      = (None, fresh_world\<lparr>log_lines :=
           [(''transform_iot_sensors'', INFO, ''Starting IoT sensor transform'', []),
            (''transform_iot_sensors'', ERROR, ''Failed to read raw IoT sensor data: %s'',
               [ArgExn (ExternalError ''s3://lake/raw/iot-sensors/'')])]\<rparr>)"
    by (simp add: fresh_world_def)
  from c4 [THEN conjunct2] g2
  have g5: "effects (run_both_transforms ?r0 ''lake'' ''db'' fresh_world) = (None, [], [])"
    by (simp add: effects_def fresh_world_def)
  have g6: "\<exists>cur. effects (run_both_transforms
           (runtime_with
              [(''s3://lake/raw/weather/'', \<lparr>columns = [], rows = []\<rparr>),
               (''s3://lake/raw/iot-sensors/'',
                \<lparr>columns = [''sensor_id'', ''city'', ''timestamp'', ''temperature_c'',
                            ''humidity_pct'', ''aqi'', ''battery_level''],
                 rows = [[(''sensor_id'', Str ''s1''), (''city'', Str ''Oslo''),
                          (''timestamp'', Str ''2024-06-30T12:00:00Z''),
                          (''temperature_c'', Num 25), (''humidity_pct'', Num 40),
                          (''aqi'', Num 12), (''battery_level'', Num 80)]]\<rparr>)])
           ''lake'' ''db'' fresh_world)
        = (None, [(''s3://lake/curated/sensor-readings/'', cur)],
           [''MSCK REPAIR TABLE `db`.curated_sensor_readings''])"
  proof -
    define di where "di = \<lparr>columns = [''sensor_id'', ''city'', ''timestamp'', ''temperature_c'',
                            ''humidity_pct'', ''aqi'', ''battery_level''],
                 rows = [[(''sensor_id'', Str ''s1''), (''city'', Str ''Oslo''),
                          (''timestamp'', Str ''2024-06-30T12:00:00Z''),
                          (''temperature_c'', Num 25), (''humidity_pct'', Num 40),
                          (''aqi'', Num 12), (''battery_level'', Num 80)]]\<rparr>"
    define rb where "rb = runtime_with [(''s3://lake/raw/weather/'', ?empty),
                                        (''s3://lake/raw/iot-sensors/'', di)]"
    define wp where "wp = ''s3://'' @ ''lake'' @ ''/raw/weather/''"
    define ip where "ip = ''s3://'' @ ''lake'' @ ''/raw/iot-sensors/''"
    have h5: "read_json rb (''s3://'' @ ''lake'' @ ''/raw/weather/'') = Inr ?empty \<and> isEmpty ?empty"
      by (simp add: rb_def runtime_with_simps isEmpty_def)
    note c5 = skipped_variant_leaves_other_running
      [where rt = rb and b = "''lake''" and db = "''db''" and w = fresh_world and d = ?empty,
       THEN conjunct1, THEN mp, OF h5]
    define w1 where "w1 = snd (transform_weather rb ''lake'' ''db'' fresh_world)"
    have rbq: "run_both_transforms rb ''lake'' ''db'' fresh_world
                 = transform_iot_sensors rb ''lake'' ''db'' w1"
      unfolding w1_def by (rule c5 [THEN conjunct2])
    have "w1 = snd (None :: exn option, fresh_world\<lparr>log_lines := log_lines fresh_world @
           [(''transform_weather'', INFO, ''Starting weather transform'', []),
            (''transform_weather'', WARNING, ''No raw weather data found at %s'',
               [ArgStr (''s3://'' @ ''lake'' @ ''/raw/weather/'')])]\<rparr>)"
      unfolding w1_def by (simp only: c5 [THEN conjunct1])
    then have wr: "written w1 = []" and st: "statements w1 = []"
      by (simp_all add: fresh_world_def)
    have r: "read_json rb (''s3://'' @ ''lake'' @ ''/raw/iot-sensors/'') = Inr di"
      by (simp add: rb_def runtime_with_simps)
    have ne: "\<not> isEmpty di" by (simp add: isEmpty_def di_def)
    have cols: "{''sensor_id'', ''city'', ''timestamp'', ''temperature_c'', ''humidity_pct'', ''aqi'',
               ''battery_level''} \<subseteq> set (columns di)"
      by (simp add: di_def)
    have wok: "write_error rb (''s3://'' @ ''lake'' @ ''/curated/sensor-readings/'') = None"
      and sok: "sql_error rb (''MSCK REPAIR TABLE `'' @ ''db'' @ ''`.curated_sensor_readings'') = None"
      by (simp_all add: rb_def runtime_with_simps)
    from transform_iot_sensors_completes [OF r ne cols wok sok, of w1]
    obtain cur where cur:
      "effects (transform_iot_sensors rb ''lake'' ''db'' w1)
         = (None, AList.update (''s3://'' @ ''lake'' @ ''/curated/sensor-readings/'') cur (written w1),
            statements w1 @ [''MSCK REPAIR TABLE `'' @ ''db'' @ ''`.curated_sensor_readings''])"
      by (elim exE conjE)
    have "effects (run_both_transforms rb ''lake'' ''db'' fresh_world)
        = (None, [(''s3://lake/curated/sensor-readings/'', cur)],
           [''MSCK REPAIR TABLE `db`.curated_sensor_readings''])"
      by (simp add: rbq cur wr st)
    then show ?thesis
      unfolding rb_def di_def by (intro exI)
  qed
  from e g1 g2 g3 g4 g5 g6 show ?thesis by (intro conjI)
qed

end
